theory Spec2Isabelle
  imports Complex_Main
begin

section \<open>Data model\<close>

text \<open>
  The application is a point-of-sale front end written in TypeScript. Its logic lives in
  the event handlers of four screens: the cashier (\<open>src/pages/Cashier.tsx\<close>), the
  reports (\<open>src/pages/Reports.tsx\<close>), the withdrawals and the products screen.
  Each handler reads the screen's state, may call the external store, and writes the
  state back. The handlers are translated one by one into functions that take the state
  they read and return the state they write.

  Conventions of the translation.
  \<^item> A TypeScript \<open>number\<close> that holds an amount of money is an exact rational. The
    result of \<open>parseFloat\<close> is a \<open>number\<close> that may be \<open>NaN\<close>: it has the type
    \<open>number\<close> below. \<open>parseFloat\<close> itself is a built-in of the language: a handler that
    starts with \<open>parseFloat(text)\<close> takes the parsed value as its argument.
  \<^item> Quantities are integers, as the column \<open>quantity INTEGER\<close> of the schema and the
    callers of \<open>updateQuantity\<close> (which pass \<open>1\<close> and \<open>-1\<close>) have them.
  \<^item> The field \<open>id\<close> of a product is called \<open>pid\<close>, since \<open>id\<close> is the identity
    function of HOL; the fields of a stored row carry the prefix of their table where
    two interfaces of the source use the same field name.
  \<^item> A call of the store either fails or succeeds. Its outcome, and the columns the store
    generates (\<open>id\<close>, \<open>transaction_date\<close>, \<open>created_at\<close>), are arguments of the handler
    that makes the call.
  \<^item> A notification (\<open>toast.error\<close>, \<open>toast.success\<close>) is returned as a value.
\<close>

datatype number = NaN | Fin rat

datatype toast = ToastError string | ToastSuccess string

record Product =
  pid :: string
  code :: string
  name :: string
  price :: rat

record CartItem =
  product :: Product
  quantity :: int
  displayPrice :: rat
  displayName :: string

section \<open>Cashier: the cart\<close>

text \<open>\<open>String.prototype.trim\<close> on ASCII text: the white space and line terminator
  characters below U+0080 are TAB, LF, VT, FF, CR and SPACE.\<close>

definition isWhiteSpace :: "char \<Rightarrow> bool" where
  "isWhiteSpace c = (of_char c \<in> {9, 10, 11, 12, 13, 32 :: nat})"

definition trim :: "string \<Rightarrow> string" where
  "trim s = rev (dropWhile isWhiteSpace (rev (dropWhile isWhiteSpace s)))"

text \<open>\<open>addToCart\<close> (Cashier.tsx, lines 69-91). \<open>cart.find\<close> returns the first line of
  the product or \<open>undefined\<close>; a line is an object, hence truthy.\<close>

definition addToCart :: "Product \<Rightarrow> CartItem list \<Rightarrow> CartItem list" where
  "addToCart p cart =
     (case find (\<lambda>item. pid (product item) = pid p) cart of
        Some existing \<Rightarrow>
          map (\<lambda>item. if pid (product item) = pid p
                       then item\<lparr>quantity := quantity item + 1\<rparr> else item) cart
      | None \<Rightarrow>
          cart @ [\<lparr>product = p, quantity = 1, displayPrice = price p, displayName = name p\<rparr>])"

text \<open>\<open>updateQuantity\<close> (lines 93-103).\<close>

definition updateQuantity :: "string \<Rightarrow> int \<Rightarrow> CartItem list \<Rightarrow> CartItem list" where
  "updateQuantity productId delta cart =
     filter (\<lambda>item. quantity item > 0)
       (map (\<lambda>item. if pid (product item) = productId
                     then item\<lparr>quantity := max 0 (quantity item + delta)\<rparr> else item) cart)"

text \<open>\<open>updatePrice\<close> (lines 105-116); the argument \<open>newPrice\<close> is the value of
  \<open>parseFloat(newPrice)\<close>, which the source calls \<open>price\<close>. The guard is
  \<open>isNaN(price) || price <= 0\<close>.\<close>

definition updatePrice :: "string \<Rightarrow> number \<Rightarrow> CartItem list \<Rightarrow> toast option \<times> CartItem list" where
  "updatePrice productId newPrice cart =
     (case newPrice of
        NaN \<Rightarrow> (Some (ToastError ''Harga harus lebih dari 0''), cart)
      | Fin v \<Rightarrow>
          if v \<le> 0 then (Some (ToastError ''Harga harus lebih dari 0''), cart)
          else (None, map (\<lambda>item. if pid (product item) = productId
                                   then item\<lparr>displayPrice := v\<rparr> else item) cart))"

text \<open>\<open>updateName\<close> (lines 118-129).\<close>

definition updateName :: "string \<Rightarrow> string \<Rightarrow> CartItem list \<Rightarrow> toast option \<times> CartItem list" where
  "updateName productId newName cart =
     (let trimmedName = trim newName in
      if length trimmedName = 0
      then (Some (ToastError ''Nama produk tidak boleh kosong''), cart)
      else (None, map (\<lambda>item. if pid (product item) = productId
                               then item\<lparr>displayName := trimmedName\<rparr> else item) cart))"

text \<open>\<open>removeFromCart\<close> (lines 131-133).\<close>

definition removeFromCart :: "string \<Rightarrow> CartItem list \<Rightarrow> CartItem list" where
  "removeFromCart productId cart = filter (\<lambda>item. pid (product item) \<noteq> productId) cart"

text \<open>The button that cancels the sale runs \<open>setCart([])\<close> (line 486).\<close>

definition clearCart :: "CartItem list \<Rightarrow> CartItem list" where
  "clearCart cart = []"

text \<open>\<open>totalAmount\<close> (lines 135-138): \<open>cart.reduce\<close> from the left, starting at 0.\<close>

definition totalAmount :: "CartItem list \<Rightarrow> rat" where
  "totalAmount cart =
     foldl (\<lambda>sum item. sum + displayPrice item * of_int (quantity item)) 0 cart"

text \<open>The invariant of the cart: one line per product, every quantity at least 1.\<close>

definition cart_inv :: "CartItem list \<Rightarrow> bool" where
  "cart_inv cart =
     (distinct (map (\<lambda>item. pid (product item)) cart) \<and> (\<forall>item \<in> set cart. 1 \<le> quantity item))"

section \<open>The store\<close>

text \<open>
  The rows of the tables \<open>transactions\<close>, \<open>transaction_items\<close> and \<open>withdrawals\<close>, with
  the columns the handlers read or write. The store is external; a table is the list of
  its rows.
\<close>

record Transaction =
  tx_id :: string
  transaction_date :: string
  total_amount :: rat
  payment_amount :: rat
  change_amount :: rat

record TransactionItem =
  ti_id :: string
  transaction_id :: string
  product_code :: string
  product_name :: string
  ti_quantity :: int
  ti_price :: rat
  subtotal :: rat

record Withdrawal =
  w_id :: string
  withdrawal_date :: string
  withdrawal_name :: string
  amount :: rat
  created_at :: string

record store =
  transactions :: "Transaction list"
  transaction_items :: "TransactionItem list"
  withdrawals :: "Withdrawal list"




section \<open>Cashier: checkout\<close>

text \<open>The state of the cashier screen that \<open>handlePayment\<close> reads and writes.\<close>

record cashier_state =
  cart_items :: "CartItem list"
  paymentAmount :: string
  showPayment :: bool

text \<open>What one run of \<open>handlePayment\<close> leaves behind: the notification, the arguments of
  the call of \<open>printReceipt\<close> if it was reached (transaction id, payment, change), the
  state of the screen and the store.\<close>

record payment_result =
  shown :: toast
  receipt :: "(string \<times> rat \<times> rat) option"
  ui :: cashier_state
  db_after :: store

text \<open>The rows that \<open>handlePayment\<close> inserts into \<open>transaction_items\<close> (lines 167-174);
  \<open>new_id k\<close> is the id the store gives to the \<open>k\<close>-th of them.\<close>

definition checkout_items :: "string \<Rightarrow> (nat \<Rightarrow> string) \<Rightarrow> CartItem list \<Rightarrow> TransactionItem list" where
  "checkout_items tid new_id cart =
     map (\<lambda>(k, item).
            \<lparr>ti_id = new_id k,
             transaction_id = tid,
             product_code = code (product item),
             product_name = displayName item,
             ti_quantity = quantity item,
             ti_price = displayPrice item,
             subtotal = displayPrice item * of_int (quantity item)\<rparr>)
         (enumerate 0 cart)"

text \<open>
  \<open>handlePayment\<close> (lines 140-194). \<open>payment\<close> is the value of
  \<open>parseFloat(paymentAmount)\<close>. The guard \<open>!payment || payment < totalAmount\<close> holds for
  \<open>NaN\<close> (\<open>!NaN\<close> is true, and a comparison with \<open>NaN\<close> is false), for 0 (\<open>!0\<close> is true)
  and for a number below the total. \<open>tx_resp\<close> is the answer of the store to the insert
  into \<open>transactions\<close>: \<open>None\<close> for an error, or the id and the date of the new row.
  \<open>items_resp\<close> is its answer to the insert into \<open>transaction_items\<close>: \<open>None\<close> for an
  error, or the ids of the new rows.
\<close>

definition handlePayment ::
  "number \<Rightarrow> (string \<times> string) option \<Rightarrow> (nat \<Rightarrow> string) option \<Rightarrow>
   cashier_state \<Rightarrow> store \<Rightarrow> payment_result" where
  "handlePayment payment tx_resp items_resp st db =
     (let invalid = \<lparr>shown = ToastError ''Jumlah pembayaran tidak valid'',
                      receipt = None, ui = st, db_after = db\<rparr> in
      (case payment of
         NaN \<Rightarrow> invalid
       | Fin pay \<Rightarrow>
           (if pay = 0 \<or> pay < totalAmount (cart_items st) then invalid
            else
              (let changeAmount = pay - totalAmount (cart_items st) in
               (case tx_resp of
                  None \<Rightarrow>
                    \<lparr>shown = ToastError ''Gagal menyimpan transaksi'',
                     receipt = None, ui = st, db_after = db\<rparr>
                | Some (tid, date) \<Rightarrow>
                    (let db1 = db\<lparr>transactions := transactions db @
                                   [\<lparr>tx_id = tid, transaction_date = date,
                                     total_amount = totalAmount (cart_items st),
                                     payment_amount = pay,
                                     change_amount = changeAmount\<rparr>]\<rparr> in
                     (case items_resp of
                        None \<Rightarrow>
                          \<lparr>shown = ToastError ''Gagal menyimpan detail transaksi'',
                           receipt = None, ui = st, db_after = db1\<rparr>
                      | Some new_id \<Rightarrow>
                          \<lparr>shown = ToastSuccess ''Transaksi berhasil'',
                           receipt = Some (tid, pay, changeAmount),
                           ui = st\<lparr>cart_items := [], paymentAmount := [],
                                   showPayment := False\<rparr>,
                           db_after = db1\<lparr>transaction_items := transaction_items db1 @
                                         checkout_items tid new_id (cart_items st)\<rparr>\<rparr>)))))))"

section \<open>Reports: editing a transaction\<close>


text \<open>\<open>updateItemQuantity\<close> and \<open>updateItemPrice\<close> (Reports.tsx, lines 174-192) change
  the items being edited, which are held in the state \<open>editItems\<close>.\<close>

definition updateItemQuantity :: "string \<Rightarrow> int \<Rightarrow> TransactionItem list \<Rightarrow> TransactionItem list" where
  "updateItemQuantity itemId q editItems =
     map (\<lambda>item. if ti_id item = itemId
                  then item\<lparr>ti_quantity := q, subtotal := of_int q * ti_price item\<rparr>
                  else item) editItems"

definition updateItemPrice :: "string \<Rightarrow> rat \<Rightarrow> TransactionItem list \<Rightarrow> TransactionItem list" where
  "updateItemPrice itemId v editItems =
     map (\<lambda>item. if ti_id item = itemId
                  then item\<lparr>ti_price := v, subtotal := of_int (ti_quantity item) * v\<rparr>
                  else item) editItems"

text \<open>One pass of the loop of \<open>handleSaveEdit\<close> (lines 152-167): the update of the row of
  \<open>transaction_items\<close> whose id is that of \<open>item\<close>.\<close>

definition update_item_row :: "TransactionItem \<Rightarrow> TransactionItem \<Rightarrow> TransactionItem" where
  "update_item_row item r =
     (if ti_id r = ti_id item
      then r\<lparr>ti_quantity := ti_quantity item, ti_price := ti_price item,
             subtotal := of_int (ti_quantity item) * ti_price item\<rparr>
      else r)"



section \<open>Withdrawals\<close>





section \<open>Products: the next code\<close>











section \<open>Properties of the cart\<close>



lemma addToCart_absent:
  assumes "\<forall>item \<in> set cart. pid (product item) \<noteq> pid p"
  shows "addToCart p cart =
           cart @ [\<lparr>product = p, quantity = 1, displayPrice = price p, displayName = name p\<rparr>]"
proof -
  from assms have "find (\<lambda>item. pid (product item) = pid p) cart = None"
    by (simp add: find_None_iff)
  then show ?thesis by (simp add: addToCart_def)
qed

lemma addToCart_present:
  assumes "\<exists>item \<in> set cart. pid (product item) = pid p"
  shows "addToCart p cart =
           map (\<lambda>item. if pid (product item) = pid p
                        then item\<lparr>quantity := quantity item + 1\<rparr> else item) cart"
proof -
  from assms have "find (\<lambda>item. pid (product item) = pid p) cart \<noteq> None"
    by (auto simp: find_None_iff)
  then obtain existing where "find (\<lambda>item. pid (product item) = pid p) cart = Some existing"
    by blast
  then show ?thesis by (simp add: addToCart_def)
qed

text \<open>
  Claim C7. For every cart and product, \<open>addToCart\<close> adds 1 to the quantity of the line
  of that product when the cart has one, and otherwise appends a new line of quantity 1
  whose display price and display name are the price and the name of the product. No
  other line changes.
\<close>

theorem addToCart_spec:
  "((\<exists>item \<in> set cart. pid (product item) = pid p) \<longrightarrow>
      addToCart p cart =
        map (\<lambda>item. if pid (product item) = pid p
                     then item\<lparr>quantity := quantity item + 1\<rparr> else item) cart)
   \<and> ((\<forall>item \<in> set cart. pid (product item) \<noteq> pid p) \<longrightarrow>
      addToCart p cart =
        cart @ [\<lparr>product = p, quantity = 1, displayPrice = price p, displayName = name p\<rparr>])"
  using addToCart_present [of cart p] addToCart_absent [of cart p] by blast

theorem addToCart_spec_witness:
  "(\<exists>item \<in> set [\<lparr>product = \<lparr>pid = ''a'', code = ''P002'', name = ''Print'', price = 500\<rparr>,
                      quantity = 1, displayPrice = 500, displayName = ''Print''\<rparr>].
       pid (product item) = ''a'')
   \<and> addToCart \<lparr>pid = ''a'', code = ''P002'', name = ''Print'', price = 500\<rparr>
         [\<lparr>product = \<lparr>pid = ''a'', code = ''P002'', name = ''Print'', price = 500\<rparr>,
           quantity = 1, displayPrice = 500, displayName = ''Print''\<rparr>]
       = [\<lparr>product = \<lparr>pid = ''a'', code = ''P002'', name = ''Print'', price = 500\<rparr>,
           quantity = 2, displayPrice = 500, displayName = ''Print''\<rparr>]
   \<and> list_all (\<lambda>item. pid (product item) \<noteq> ''b'')
         [\<lparr>product = \<lparr>pid = ''a'', code = ''P002'', name = ''Print'', price = 500\<rparr>,
           quantity = 1, displayPrice = 500, displayName = ''Print''\<rparr>]
   \<and> addToCart \<lparr>pid = ''b'', code = ''P003'', name = ''Warna'', price = 2000\<rparr>
         [\<lparr>product = \<lparr>pid = ''a'', code = ''P002'', name = ''Print'', price = 500\<rparr>,
           quantity = 1, displayPrice = 500, displayName = ''Print''\<rparr>]
       = [\<lparr>product = \<lparr>pid = ''a'', code = ''P002'', name = ''Print'', price = 500\<rparr>,
           quantity = 1, displayPrice = 500, displayName = ''Print''\<rparr>,
          \<lparr>product = \<lparr>pid = ''b'', code = ''P003'', name = ''Warna'', price = 2000\<rparr>,
           quantity = 1, displayPrice = 2000, displayName = ''Warna''\<rparr>]"
  using addToCart_spec [of "[\<lparr>product = \<lparr>pid = ''a'', code = ''P002'', name = ''Print'', price = 500\<rparr>,
                              quantity = 1, displayPrice = 500, displayName = ''Print''\<rparr>]"
                           "\<lparr>pid = ''a'', code = ''P002'', name = ''Print'', price = 500\<rparr>"]
        addToCart_spec [of "[\<lparr>product = \<lparr>pid = ''a'', code = ''P002'', name = ''Print'', price = 500\<rparr>,
                              quantity = 1, displayPrice = 500, displayName = ''Print''\<rparr>]"
                           "\<lparr>pid = ''b'', code = ''P003'', name = ''Warna'', price = 2000\<rparr>"]
  by simp

text \<open>
  Claim C6. For every delta, \<open>updateQuantity\<close> sets the quantity of the line of the
  product to the sum clamped at 0 and removes the line when that is 0, so that every
  line it leaves has a positive quantity; in a cart whose quantities are positive, all
  other lines stay as they are.
\<close>

theorem updateQuantity_spec:
  "(\<forall>item \<in> set (updateQuantity productId delta cart). 0 < quantity item)
   \<and> ((\<forall>item \<in> set cart. 0 < quantity item) \<longrightarrow>
        updateQuantity productId delta cart =
          concat (map (\<lambda>item.
                    if pid (product item) \<noteq> productId then [item]
                    else if max 0 (quantity item + delta) = 0 then []
                    else [item\<lparr>quantity := max 0 (quantity item + delta)\<rparr>]) cart))"
proof
  show "\<forall>item \<in> set (updateQuantity productId delta cart). 0 < quantity item"
    by (simp add: updateQuantity_def)
next
  show "(\<forall>item \<in> set cart. 0 < quantity item) \<longrightarrow>
        updateQuantity productId delta cart =
          concat (map (\<lambda>item.
                    if pid (product item) \<noteq> productId then [item]
                    else if max 0 (quantity item + delta) = 0 then []
                    else [item\<lparr>quantity := max 0 (quantity item + delta)\<rparr>]) cart)"
    by (induction cart) (auto simp: updateQuantity_def)
qed

theorem updateQuantity_spec_witness:
  "list_all (\<lambda>item. 0 < quantity item)
     [\<lparr>product = \<lparr>pid = ''a'', code = ''P002'', name = ''Print'', price = 500\<rparr>,
       quantity = 1, displayPrice = 500, displayName = ''Print''\<rparr>,
      \<lparr>product = \<lparr>pid = ''b'', code = ''P003'', name = ''Warna'', price = 2000\<rparr>,
       quantity = 3, displayPrice = 2000, displayName = ''Warna''\<rparr>]
   \<and> updateQuantity ''a'' (- 1)
         [\<lparr>product = \<lparr>pid = ''a'', code = ''P002'', name = ''Print'', price = 500\<rparr>,
           quantity = 1, displayPrice = 500, displayName = ''Print''\<rparr>,
          \<lparr>product = \<lparr>pid = ''b'', code = ''P003'', name = ''Warna'', price = 2000\<rparr>,
           quantity = 3, displayPrice = 2000, displayName = ''Warna''\<rparr>]
       = [\<lparr>product = \<lparr>pid = ''b'', code = ''P003'', name = ''Warna'', price = 2000\<rparr>,
           quantity = 3, displayPrice = 2000, displayName = ''Warna''\<rparr>]
   \<and> updateQuantity ''b'' (- 1)
         [\<lparr>product = \<lparr>pid = ''a'', code = ''P002'', name = ''Print'', price = 500\<rparr>,
           quantity = 1, displayPrice = 500, displayName = ''Print''\<rparr>,
          \<lparr>product = \<lparr>pid = ''b'', code = ''P003'', name = ''Warna'', price = 2000\<rparr>,
           quantity = 3, displayPrice = 2000, displayName = ''Warna''\<rparr>]
       = [\<lparr>product = \<lparr>pid = ''a'', code = ''P002'', name = ''Print'', price = 500\<rparr>,
           quantity = 1, displayPrice = 500, displayName = ''Print''\<rparr>,
          \<lparr>product = \<lparr>pid = ''b'', code = ''P003'', name = ''Warna'', price = 2000\<rparr>,
           quantity = 2, displayPrice = 2000, displayName = ''Warna''\<rparr>]"
  using updateQuantity_spec [of "''a''" "- 1"
          "[\<lparr>product = \<lparr>pid = ''a'', code = ''P002'', name = ''Print'', price = 500\<rparr>,
             quantity = 1, displayPrice = 500, displayName = ''Print''\<rparr>,
            \<lparr>product = \<lparr>pid = ''b'', code = ''P003'', name = ''Warna'', price = 2000\<rparr>,
             quantity = 3, displayPrice = 2000, displayName = ''Warna''\<rparr>]"]
        updateQuantity_spec [of "''b''" "- 1"
          "[\<lparr>product = \<lparr>pid = ''a'', code = ''P002'', name = ''Print'', price = 500\<rparr>,
             quantity = 1, displayPrice = 500, displayName = ''Print''\<rparr>,
            \<lparr>product = \<lparr>pid = ''b'', code = ''P003'', name = ''Warna'', price = 2000\<rparr>,
             quantity = 3, displayPrice = 2000, displayName = ''Warna''\<rparr>]"]
  by simp

lemma pid_map_upd:
  assumes "\<And>item. pid (product (f item)) = pid (product item)"
  shows "map (\<lambda>item. pid (product item)) (map f cart) = map (\<lambda>item. pid (product item)) cart"
  using assms by (induction cart) simp_all

lemma cart_inv_filter: "cart_inv cart \<Longrightarrow> cart_inv (filter P cart)"
  by (auto simp: cart_inv_def distinct_map_filter)

lemma cart_inv_addToCart: "cart_inv cart \<Longrightarrow> cart_inv (addToCart p cart)"
proof (cases "\<exists>item \<in> set cart. pid (product item) = pid p")
  case False
  assume "cart_inv cart"
  with False show ?thesis
    by (auto simp: cart_inv_def addToCart_absent)
next
  case True
  assume inv: "cart_inv cart"
  let ?f = "\<lambda>item. if pid (product item) = pid p then item\<lparr>quantity := quantity item + 1\<rparr> else item"
  have "map (\<lambda>item. pid (product item)) (map ?f cart) = map (\<lambda>item. pid (product item)) cart"
    by (rule pid_map_upd) simp
  with inv have "distinct (map (\<lambda>item. pid (product item)) (map ?f cart))"
    by (simp add: cart_inv_def del: map_map)
  moreover from inv have "\<forall>item \<in> set (map ?f cart). 1 \<le> quantity item"
    by (auto simp: cart_inv_def)
  ultimately show ?thesis
    unfolding cart_inv_def addToCart_present [OF True] by blast
qed

lemma cart_inv_updateQuantity: "cart_inv cart \<Longrightarrow> cart_inv (updateQuantity productId delta cart)"
proof -
  assume inv: "cart_inv cart"
  let ?f = "\<lambda>item. if pid (product item) = productId
                     then item\<lparr>quantity := max 0 (quantity item + delta)\<rparr> else item"
  have "map (\<lambda>item. pid (product item)) (map ?f cart) = map (\<lambda>item. pid (product item)) cart"
    by (rule pid_map_upd) simp
  with inv have "distinct (map (\<lambda>item. pid (product item)) (map ?f cart))"
    by (simp add: cart_inv_def del: map_map)
  then have "distinct (map (\<lambda>item. pid (product item)) (filter (\<lambda>item. quantity item > 0) (map ?f cart)))"
    by (rule distinct_map_filter)
  moreover have "\<forall>item \<in> set (filter (\<lambda>item. quantity item > 0) (map ?f cart)). 1 \<le> quantity item"
    by auto
  ultimately show ?thesis
    unfolding cart_inv_def updateQuantity_def by blast
qed

lemma cart_inv_updatePrice: "cart_inv cart \<Longrightarrow> cart_inv (snd (updatePrice productId newPrice cart))"
proof -
  assume inv: "cart_inv cart"
  have "map (\<lambda>item. pid (product item)) (map (\<lambda>item. if pid (product item) = productId
                                   then item\<lparr>displayPrice := v\<rparr> else item) cart) = map (\<lambda>item. pid (product item)) cart" for v
    by (rule pid_map_upd) simp
  with inv show ?thesis
    by (auto simp: cart_inv_def updatePrice_def simp del: map_map split: number.splits)
qed

lemma cart_inv_updateName: "cart_inv cart \<Longrightarrow> cart_inv (snd (updateName productId newName cart))"
proof -
  assume inv: "cart_inv cart"
  have "map (\<lambda>item. pid (product item)) (map (\<lambda>item. if pid (product item) = productId
                                   then item\<lparr>displayName := v\<rparr> else item) cart) = map (\<lambda>item. pid (product item)) cart" for v
    by (rule pid_map_upd) simp
  with inv show ?thesis
    by (auto simp: cart_inv_def updateName_def Let_def simp del: map_map)
qed

text \<open>
  Claim C10. Every operation on the cart (adding a product, changing a quantity, the
  display price or the display name, removing a line, clearing the cart) preserves the
  invariant that a product id occurs in at most one line and every quantity is at
  least 1.
\<close>

theorem cart_operations_preserve_invariant:
  assumes "cart_inv cart"
  shows "cart_inv (addToCart p cart)
       \<and> cart_inv (updateQuantity productId delta cart)
       \<and> cart_inv (snd (updatePrice productId newPrice cart))
       \<and> cart_inv (snd (updateName productId newName cart))
       \<and> cart_inv (removeFromCart productId cart)
       \<and> cart_inv (clearCart cart)"
proof -
  have "cart_inv (removeFromCart productId cart)"
    unfolding removeFromCart_def using assms by (rule cart_inv_filter)
  moreover have "cart_inv (clearCart cart)"
    by (simp add: clearCart_def cart_inv_def)
  ultimately show ?thesis
    using assms cart_inv_addToCart cart_inv_updateQuantity cart_inv_updatePrice cart_inv_updateName
    by blast
qed


theorem cart_operations_preserve_invariant_witness:
  "cart_inv [\<lparr>product = \<lparr>pid = ''a'', code = ''P002'', name = ''Print'', price = 500\<rparr>,
              quantity = 1, displayPrice = 500, displayName = ''Print''\<rparr>]
   \<and> cart_inv (addToCart \<lparr>pid = ''b'', code = ''P003'', name = ''Warna'', price = 2000\<rparr>
        [\<lparr>product = \<lparr>pid = ''a'', code = ''P002'', name = ''Print'', price = 500\<rparr>,
          quantity = 1, displayPrice = 500, displayName = ''Print''\<rparr>])
   \<and> cart_inv (updateQuantity ''a'' (- 1)
        [\<lparr>product = \<lparr>pid = ''a'', code = ''P002'', name = ''Print'', price = 500\<rparr>,
          quantity = 1, displayPrice = 500, displayName = ''Print''\<rparr>])"
proof -
  have h: "cart_inv [\<lparr>product = \<lparr>pid = ''a'', code = ''P002'', name = ''Print'', price = 500\<rparr>,
              quantity = 1, displayPrice = 500, displayName = ''Print''\<rparr>]"
    by (simp add: cart_inv_def)
  show ?thesis
    using h cart_operations_preserve_invariant [OF h,
            of "\<lparr>pid = ''b'', code = ''P003'', name = ''Warna'', price = 2000\<rparr>" "''a''" "- 1"]
    by simp
qed




section \<open>Properties of checkout\<close>







text \<open>The guard \<open>!payment\<close> also holds for a payment of 0: a cart whose total is 0 cannot
  be paid with 0.\<close>

lemma handlePayment_zero_payment:
  "handlePayment (Fin 0) tx_resp items_resp st db
     = \<lparr>shown = ToastError ''Jumlah pembayaran tidak valid'', receipt = None,
        ui = st, db_after = db\<rparr>"
  by (simp add: handlePayment_def)

section \<open>Totals of stored transactions\<close>

lemma update_item_row_keys [simp]:
  "ti_id (update_item_row e r) = ti_id r"
  "transaction_id (update_item_row e r) = transaction_id r"
  by (simp_all add: update_item_row_def)

lemma foldl_update_keys [simp]:
  "ti_id (foldl (\<lambda>r e. update_item_row e r) r es) = ti_id r"
  "transaction_id (foldl (\<lambda>r e. update_item_row e r) r es) = transaction_id r"
  by (induction es arbitrary: r) simp_all







text \<open>The rows that a checkout inserts carry the subtotal quantity times price, and the
  two edits of the dialog keep that and keep the ids.\<close>

lemma checkout_items_row:
  "r \<in> set (checkout_items tid new_id cart) \<Longrightarrow> subtotal r = of_int (ti_quantity r) * ti_price r"
  by (auto simp: checkout_items_def)

lemma updateItemQuantity_rows:
  assumes "\<forall>e \<in> set editItems. subtotal e = of_int (ti_quantity e) * ti_price e"
  shows "\<forall>e \<in> set (updateItemQuantity itemId q editItems).
           subtotal e = of_int (ti_quantity e) * ti_price e"
    and "map ti_id (updateItemQuantity itemId q editItems) = map ti_id editItems"
  using assms by (induction editItems) (simp_all add: updateItemQuantity_def)

lemma updateItemPrice_rows:
  assumes "\<forall>e \<in> set editItems. subtotal e = of_int (ti_quantity e) * ti_price e"
  shows "\<forall>e \<in> set (updateItemPrice itemId v editItems).
           subtotal e = of_int (ti_quantity e) * ti_price e"
    and "map ti_id (updateItemPrice itemId v editItems) = map ti_id editItems"
  using assms by (induction editItems) (simp_all add: updateItemPrice_def)








section \<open>Properties of the withdrawals\<close>




section \<open>Properties of the next code\<close>


















end
